theory Spec2Isabelle
  imports Main
begin

section \<open>Values, thrown errors and effects\<close>

text \<open>
  \<^verbatim>\<open>type Nullable<T> = T | null | undefined\<close>: a raw value is one of the two absence
  markers or a defined value of the held type.
\<close>

datatype 'a nullable = Null | Undefined | Val 'a

text \<open>
  What a JavaScript \<^verbatim>\<open>throw\<close> carries: an \<^verbatim>\<open>Error\<close> with its message, or any
  other shape a caller-supplied function produces.
\<close>

datatype 'x thrown = Error string | Custom 'x

text \<open>
  A caller-supplied function (mapper, predicate, supplier, consumer) may read and change
  the caller's world \<open>'w\<close> and may throw. It is a function from the world to an outcome
  (\<open>Inl\<close> the thrown value, \<open>Inr\<close> the returned one) and the world it leaves.
\<close>

type_synonym ('x, 'w, 'r) eff = "'w \<Rightarrow> ('x thrown + 'r) \<times> 'w"

text \<open>
  The call-counting probe of the test suite (\<^verbatim>\<open>vi.fn(impl)\<close>): it runs the wrapped
  function and adds one to a counter kept beside the world.
\<close>

definition counting :: "('x, 'w, 'r) eff \<Rightarrow> ('x, nat \<times> 'w, 'r) eff" where
  "counting f = (\<lambda>(n, w). case f w of (r, w') \<Rightarrow> (r, (Suc n, w')))"

section \<open>Optional.ts\<close>

text \<open>
  \<^verbatim>\<open>createOptional(value)\<close> returns an object of closures over the parameter
  \<^verbatim>\<open>value\<close>, which none of them assigns. The object is the record of what it
  captured; each closure is a function of that record.
\<close>

record 'a optional =
  value_of :: "'a nullable"

definition createOptional :: "'a nullable \<Rightarrow> 'a optional" where
  "createOptional v = \<lparr>value_of = v\<rparr>"

definition isPresent :: "'a optional \<Rightarrow> bool" where
  "isPresent opt \<longleftrightarrow> value_of opt \<noteq> Null \<and> value_of opt \<noteq> Undefined"

definition isEmpty :: "'a optional \<Rightarrow> bool" where
  "isEmpty opt \<longleftrightarrow> value_of opt = Null \<or> value_of opt = Undefined"

definition get :: "'a optional \<Rightarrow> 'x thrown + 'a" where
  "get opt =
     (case value_of opt of
        Null \<Rightarrow> Inl (Error ''No value present in Optional'')
      | Undefined \<Rightarrow> Inl (Error ''No value present in Optional'')
      | Val v \<Rightarrow> Inr v)"

definition unwrap :: "'a optional \<Rightarrow> 'a nullable" where
  "unwrap opt = value_of opt"

definition map_opt :: "'a optional \<Rightarrow> ('a \<Rightarrow> ('x, 'w, 'b nullable) eff) \<Rightarrow> ('x, 'w, 'b optional) eff" where
  "map_opt opt mapper w =
     (case value_of opt of
        Null \<Rightarrow> (Inr (createOptional Undefined), w)
      | Undefined \<Rightarrow> (Inr (createOptional Undefined), w)
      | Val v \<Rightarrow>
          (case mapper v w of
             (Inl e, w') \<Rightarrow> (Inl e, w')
           | (Inr mapped, w') \<Rightarrow> (Inr (createOptional mapped), w')))"

definition flatMap :: "'a optional \<Rightarrow> ('a \<Rightarrow> ('x, 'w, 'b nullable) eff) \<Rightarrow> ('x, 'w, 'b optional) eff" where
  "flatMap opt mapper w =
     (case value_of opt of
        Null \<Rightarrow> (Inr (createOptional Undefined), w)
      | Undefined \<Rightarrow> (Inr (createOptional Undefined), w)
      | Val v \<Rightarrow>
          (case mapper v w of
             (Inl e, w') \<Rightarrow> (Inl e, w')
           | (Inr mapped, w') \<Rightarrow> (Inr (createOptional mapped), w')))"

definition filter_opt :: "'a optional \<Rightarrow> ('a \<Rightarrow> ('x, 'w, bool) eff) \<Rightarrow> ('x, 'w, 'a optional) eff" where
  "filter_opt opt predicate w =
     (case value_of opt of
        Null \<Rightarrow> (Inr (createOptional (value_of opt)), w)
      | Undefined \<Rightarrow> (Inr (createOptional (value_of opt)), w)
      | Val v \<Rightarrow>
          (case predicate v w of
             (Inl e, w') \<Rightarrow> (Inl e, w')
           | (Inr keep, w') \<Rightarrow>
               (Inr (if keep then createOptional (value_of opt) else createOptional Undefined), w')))"

definition or_opt :: "'a optional \<Rightarrow> ('x, 'w, 'a optional) eff \<Rightarrow> ('x, 'w, 'a optional) eff" where
  "or_opt opt supplier w =
     (if isPresent opt then (Inr (createOptional (value_of opt)), w) else supplier w)"

definition orElse :: "'a optional \<Rightarrow> 'a \<Rightarrow> 'a" where
  "orElse opt other = (case value_of opt of Val v \<Rightarrow> v | _ \<Rightarrow> other)"

definition orElseGet :: "'a optional \<Rightarrow> ('x, 'w, 'a) eff \<Rightarrow> ('x, 'w, 'a) eff" where
  "orElseGet opt supplier w = (case value_of opt of Val v \<Rightarrow> (Inr v, w) | _ \<Rightarrow> supplier w)"

text \<open>
  \<^verbatim>\<open>orElseThrow(errorSupplier?)\<close>: the factory is optional, and what it returns is
  thrown. A factory that itself throws leaves that throw in place of the one intended.
\<close>

definition orElseThrow :: "'a optional \<Rightarrow> ('x, 'w, 'x thrown) eff option \<Rightarrow> ('x, 'w, 'a) eff" where
  "orElseThrow opt errorSupplier w =
     (case value_of opt of
        Null \<Rightarrow>
          (case errorSupplier of
             None \<Rightarrow> (Inl (Error ''No value present in Optional''), w)
           | Some factory \<Rightarrow>
               (case factory w of (Inl e, w') \<Rightarrow> (Inl e, w') | (Inr error, w') \<Rightarrow> (Inl error, w')))
      | Undefined \<Rightarrow>
          (case errorSupplier of
             None \<Rightarrow> (Inl (Error ''No value present in Optional''), w)
           | Some factory \<Rightarrow>
               (case factory w of (Inl e, w') \<Rightarrow> (Inl e, w') | (Inr error, w') \<Rightarrow> (Inl error, w')))
      | Val v \<Rightarrow> (Inr v, w))"

definition ifPresent :: "'a optional \<Rightarrow> ('a \<Rightarrow> ('x, 'w, unit) eff) \<Rightarrow> ('x, 'w, unit) eff" where
  "ifPresent opt consumer w = (case value_of opt of Val v \<Rightarrow> consumer v w | _ \<Rightarrow> (Inr (), w))"

definition ifPresentOrElse ::
  "'a optional \<Rightarrow> ('a \<Rightarrow> ('x, 'w, unit) eff) \<Rightarrow> ('x, 'w, unit) eff \<Rightarrow> ('x, 'w, unit) eff" where
  "ifPresentOrElse opt action emptyAction w =
     (case value_of opt of Val v \<Rightarrow> action v w | _ \<Rightarrow> emptyAction w)"

text \<open>
  \<^verbatim>\<open>equals\<close> compares two present values with the host's \<^verbatim>\<open>===\<close>, which is
  identity on objects and is not reflexive on NaN: it is the parameter \<open>strictEq\<close>.
\<close>

definition equals :: "('a \<Rightarrow> 'a \<Rightarrow> bool) \<Rightarrow> 'a optional \<Rightarrow> 'a optional \<Rightarrow> bool" where
  "equals strictEq opt other =
     (case (value_of opt, unwrap other) of
        (Val v, Val u) \<Rightarrow> strictEq v u
      | _ \<Rightarrow> isEmpty opt \<and> isEmpty other)"

text \<open>The static factory object \<^verbatim>\<open>Optional\<close>.\<close>

definition Optional_of :: "'a nullable \<Rightarrow> 'a optional" where
  "Optional_of v = createOptional v"

definition Optional_empty :: "'a optional" where
  "Optional_empty = createOptional Undefined"

definition Optional_ofNullable :: "'a nullable \<Rightarrow> 'a optional" where
  "Optional_ofNullable v = createOptional v"

definition optionalPath :: "'a nullable \<Rightarrow> ('a \<Rightarrow> ('x, 'w, 'b nullable) eff) \<Rightarrow> ('x, 'w, 'b optional) eff" where
  "optionalPath obj accessor w = map_opt (Optional_of obj) accessor w"


text \<open>
  A promise is known here by how it settles: fulfilled with a value, rejected with a
  reason, or never. \<^verbatim>\<open>await\<close> resumes with the value, throws the reason, or does not
  resume (\<open>None\<close>).
\<close>

datatype ('x, 'r) promise = Fulfilled 'r | Rejected "'x thrown" | Unsettled

definition await :: "('x, 'r) promise \<Rightarrow> ('x thrown + 'r) option" where
  "await p = (case p of Fulfilled r \<Rightarrow> Some (Inr r) | Rejected e \<Rightarrow> Some (Inl e) | Unsettled \<Rightarrow> None)"

text \<open>
  The promise an \<^verbatim>\<open>async\<close> function returns is rejected with what its body throws and
  resolved with what its body returns. Resolving is the host language's: a value that is
  not a thenable fulfils the promise; a thenable is adopted, and the promise settles as the
  thenable does. Which values are thenables, and how each settles, is the parameter
  \<open>thenable\<close> (\<open>None\<close>: not a thenable).
\<close>

definition resolve :: "('r \<Rightarrow> ('x, 'r) promise option) \<Rightarrow> 'r \<Rightarrow> ('x, 'r) promise" where
  "resolve thenable r = (case thenable r of None \<Rightarrow> Fulfilled r | Some settles \<Rightarrow> settles)"

definition async_result ::
  "('r \<Rightarrow> ('x, 'r) promise option) \<Rightarrow> ('x thrown + 'r) option \<Rightarrow> ('x, 'r) promise" where
  "async_result thenable body =
     (case body of
        None \<Rightarrow> Unsettled
      | Some (Inl e) \<Rightarrow> Rejected e
      | Some (Inr r) \<Rightarrow> resolve thenable r)"

text \<open>
  \<^verbatim>\<open>return optional.isPresent() ? optional.get() : await supplier()\<close> in an
  \<^verbatim>\<open>async\<close> function. Nothing is read or written after the \<^verbatim>\<open>await\<close>, so the
  world returned is the one the supplier left.
\<close>

definition orElseGetAsync ::
  "('a \<Rightarrow> ('x, 'a) promise option) \<Rightarrow> 'a optional \<Rightarrow> ('x, 'w, ('x, 'a) promise) eff
     \<Rightarrow> 'w \<Rightarrow> ('x, 'a) promise \<times> 'w" where
  "orElseGetAsync thenable opt supplier w =
     (if isPresent opt then (async_result thenable (Some (get opt)), w)
      else (case supplier w of
              (Inl e, w') \<Rightarrow> (Rejected e, w')
            | (Inr pending, w') \<Rightarrow> (async_result thenable (await pending), w')))"

text \<open>
  Values of the host language, as far as the adapters tell them apart: primitives, a
  plain object (by identity), the reactive proxy the framework makes of an object, and a
  promise object with the way it settles. \<open>toReactive_js\<close> is the framework's
  \<^verbatim>\<open>toReactive\<close>: an object gives its reactive proxy, anything else gives itself.
\<close>

datatype js =
    Num int
  | Str string
  | Bool bool
  | Obj nat
  | Proxy nat
  | PromiseObj "(unit, js) promise"

definition toReactive_js :: "js \<Rightarrow> js" where
  "toReactive_js v = (case v of Obj identity \<Rightarrow> Proxy identity | _ \<Rightarrow> v)"

definition thenable_js :: "js \<Rightarrow> (unit, js) promise option" where
  "thenable_js v = (case v of PromiseObj settles \<Rightarrow> Some settles | _ \<Rightarrow> None)"

subsection \<open>The interface as a method table\<close>

text \<open>
  The object \<^verbatim>\<open>createOptional\<close> returns has fourteen methods. A call names one of them
  with its arguments; \<open>invoke\<close> runs it on the receiver. Held and mapped values share one
  type here, as they do at run time.
\<close>

datatype 'v returned =
    AnOptional "'v optional"
  | AValue 'v
  | ARaw "'v nullable"
  | ABool bool
  | AVoid

datatype ('v, 'x, 'w) method_call =
    CallMap "'v \<Rightarrow> ('x, 'w, 'v nullable) eff"
  | CallFlatMap "'v \<Rightarrow> ('x, 'w, 'v nullable) eff"
  | CallFilter "'v \<Rightarrow> ('x, 'w, bool) eff"
  | CallOr "('x, 'w, 'v optional) eff"
  | CallOrElse 'v
  | CallOrElseGet "('x, 'w, 'v) eff"
  | CallOrElseThrow "('x, 'w, 'x thrown) eff option"
  | CallIfPresent "'v \<Rightarrow> ('x, 'w, unit) eff"
  | CallIfPresentOrElse "'v \<Rightarrow> ('x, 'w, unit) eff" "('x, 'w, unit) eff"
  | CallIsPresent
  | CallIsEmpty
  | CallEquals "'v optional"
  | CallGet
  | CallUnwrap

definition returning :: "('r \<Rightarrow> 's) \<Rightarrow> ('x thrown + 'r) \<times> 'w \<Rightarrow> ('x thrown + 's) \<times> 'w" where
  "returning wrap outcome =
     (case outcome of (Inl e, w') \<Rightarrow> (Inl e, w') | (Inr r, w') \<Rightarrow> (Inr (wrap r), w'))"

fun invoke :: "('v \<Rightarrow> 'v \<Rightarrow> bool) \<Rightarrow> 'v optional \<Rightarrow> ('v, 'x, 'w) method_call \<Rightarrow> ('x, 'w, 'v returned) eff" where
  "invoke strictEq opt (CallMap mapper) w = returning AnOptional (map_opt opt mapper w)"
| "invoke strictEq opt (CallFlatMap mapper) w = returning AnOptional (flatMap opt mapper w)"
| "invoke strictEq opt (CallFilter predicate) w = returning AnOptional (filter_opt opt predicate w)"
| "invoke strictEq opt (CallOr supplier) w = returning AnOptional (or_opt opt supplier w)"
| "invoke strictEq opt (CallOrElse other) w = (Inr (AValue (orElse opt other)), w)"
| "invoke strictEq opt (CallOrElseGet supplier) w = returning AValue (orElseGet opt supplier w)"
| "invoke strictEq opt (CallOrElseThrow errorSupplier) w = returning AValue (orElseThrow opt errorSupplier w)"
| "invoke strictEq opt (CallIfPresent consumer) w = returning (\<lambda>_. AVoid) (ifPresent opt consumer w)"
| "invoke strictEq opt (CallIfPresentOrElse action emptyAction) w =
     returning (\<lambda>_. AVoid) (ifPresentOrElse opt action emptyAction w)"
| "invoke strictEq opt CallIsPresent w = (Inr (ABool (isPresent opt)), w)"
| "invoke strictEq opt CallIsEmpty w = (Inr (ABool (isEmpty opt)), w)"
| "invoke strictEq opt (CallEquals other) w = (Inr (ABool (equals strictEq opt other)), w)"
| "invoke strictEq opt CallGet w = returning AValue (get opt, w)"
| "invoke strictEq opt CallUnwrap w = (Inr (ARaw (unwrap opt)), w)"

definition throws :: "('x thrown + 'r) \<times> 'w \<Rightarrow> bool" where
  "throws outcome \<longleftrightarrow> isl (fst outcome)"

text \<open>The caller-supplied functions of a call return: none of them throws.\<close>

definition returns :: "('x, 'w, 'r) eff \<Rightarrow> bool" where
  "returns f \<longleftrightarrow> (\<forall>w. \<not> isl (fst (f w)))"

fun callbacks_return :: "('v, 'x, 'w) method_call \<Rightarrow> bool" where
  "callbacks_return (CallMap mapper) = (\<forall>v. returns (mapper v))"
| "callbacks_return (CallFlatMap mapper) = (\<forall>v. returns (mapper v))"
| "callbacks_return (CallFilter predicate) = (\<forall>v. returns (predicate v))"
| "callbacks_return (CallOr supplier) = returns supplier"
| "callbacks_return (CallOrElseGet supplier) = returns supplier"
| "callbacks_return (CallOrElseThrow (Some factory)) = returns factory"
| "callbacks_return (CallIfPresent consumer) = (\<forall>v. returns (consumer v))"
| "callbacks_return (CallIfPresentOrElse action emptyAction) = ((\<forall>v. returns (action v)) \<and> returns emptyAction)"
| "callbacks_return _ = True"

fun raising_method :: "('v, 'x, 'w) method_call \<Rightarrow> bool" where
  "raising_method CallGet = True"
| "raising_method (CallOrElseThrow errorSupplier) = True"
| "raising_method _ = False"

section \<open>The reactive adapters\<close>

text \<open>
  The host framework's part is taken as its contract. A \<^verbatim>\<open>Ref\<close> is a cell, addressed
  by identity so that two views over one cell share it. Assigning \<^verbatim>\<open>.value\<close>
  replaces the content at once, and reading \<^verbatim>\<open>.value\<close> reads it. What the cell keeps
  of a written value is the cell's own business, \<open>keeps\<close>: a shallow ref keeps the value
  itself; the deep ref that \<^verbatim>\<open>ref(x)\<close> creates keeps \<^verbatim>\<open>toReactive\<close> of it, which
  is the value itself for a primitive and a reactive proxy for an object. The two absence
  markers are kept as they are. Reading \<^verbatim>\<open>.value\<close> of a \<^verbatim>\<open>computed({get, set})\<close>
  gives what \<^verbatim>\<open>get\<close> computes from the cells as they are now, and assigning it runs
  \<^verbatim>\<open>set\<close>. The host also holds the diagnostic sink: the calls made to
  \<^verbatim>\<open>console.error\<close>, in order.
\<close>

record ('a, 'x) host =
  cells :: "nat \<Rightarrow> 'a nullable"
  next_cell :: nat
  console_error :: "(string \<times> 'x thrown) list"

record 'a Ref =
  address :: nat
  keeps :: "'a \<Rightarrow> 'a"

definition kept_as :: "('a \<Rightarrow> 'a) \<Rightarrow> 'a nullable \<Rightarrow> 'a nullable" where
  "kept_as keep raw = (case raw of Null \<Rightarrow> Null | Undefined \<Rightarrow> Undefined | Val x \<Rightarrow> Val (keep x))"

definition read_ref :: "'a Ref \<Rightarrow> ('a, 'x) host \<Rightarrow> 'a nullable" where
  "read_ref r h = cells h (address r)"

definition assign_ref :: "'a Ref \<Rightarrow> 'a nullable \<Rightarrow> ('a, 'x) host \<Rightarrow> ('a, 'x) host" where
  "assign_ref r raw h = h\<lparr>cells := (cells h)(address r := kept_as (keeps r) raw)\<rparr>"

definition vue_ref :: "('a \<Rightarrow> 'a) \<Rightarrow> 'a nullable \<Rightarrow> ('a, 'x) host \<Rightarrow> 'a Ref \<times> ('a, 'x) host" where
  "vue_ref toReactive initial h =
     (\<lparr>address = next_cell h, keeps = toReactive\<rparr>,
      h\<lparr>cells := (cells h)(next_cell h := kept_as toReactive initial),
        next_cell := Suc (next_cell h)\<rparr>)"

record ('s, 't) computed =
  read_value :: "'s \<Rightarrow> 't"
  assign_value :: "'t \<Rightarrow> 's \<Rightarrow> 's"

definition refAsOptional :: "'a Ref \<Rightarrow> (('a, 'x) host, 'a optional) computed" where
  "refAsOptional source =
     \<lparr>read_value = (\<lambda>h. Optional_of (read_ref source h)),
      assign_value = (\<lambda>newOptional h. assign_ref source (unwrap newOptional) h)\<rparr>"

subsection \<open>ReactiveOptional.ts\<close>

text \<open>
  \<^verbatim>\<open>setAsync\<close> suspends at its \<^verbatim>\<open>await\<close>. Whatever else runs before it resumes is
  the function \<open>during\<close> on the host state; the continuation then runs on the state so
  left. A promise that never settles never resumes it, and the host is as it was.
\<close>

definition setAsync_of ::
  "'a Ref \<Rightarrow> ('x, 'a nullable) promise \<Rightarrow> (('a, 'x) host \<Rightarrow> ('a, 'x) host) \<Rightarrow> ('a, 'x) host
     \<Rightarrow> ('x, unit) promise \<times> ('a, 'x) host" where
  "setAsync_of valueRef promise during h =
     (case await promise of
        None \<Rightarrow> (Unsettled, h)
      | Some (Inr result) \<Rightarrow>
          (let h' = during h
           in (Fulfilled (), assign_ref valueRef result h'))
      | Some (Inl error) \<Rightarrow>
          (let h' = during h;
               logged = h'\<lparr>console_error :=
                               console_error h' @ [(''useReactiveOptional setAsync failed:'', error)]\<rparr>
           in (Fulfilled (), assign_ref valueRef Undefined logged)))"

record ('a, 'x) ReactiveOptional =
  optional :: "(('a, 'x) host, 'a optional) computed"
  ref :: "'a Ref"
  setAsync ::
    "('x, 'a nullable) promise \<Rightarrow> (('a, 'x) host \<Rightarrow> ('a, 'x) host) \<Rightarrow> ('a, 'x) host
       \<Rightarrow> ('x, unit) promise \<times> ('a, 'x) host"

text \<open>
  \<^verbatim>\<open>initialValue: Nullable<T> = undefined\<close>: a call without the argument (\<open>None\<close>)
  starts from \<^verbatim>\<open>undefined\<close>. The cell is the deep ref \<^verbatim>\<open>ref(initialValue)\<close>; the
  framework's \<^verbatim>\<open>toReactive\<close> is the first parameter.
\<close>

definition useReactiveOptional ::
  "('a \<Rightarrow> 'a) \<Rightarrow> 'a nullable option \<Rightarrow> ('a, 'x) host
     \<Rightarrow> ('a, 'x) ReactiveOptional \<times> ('a, 'x) host" where
  "useReactiveOptional toReactive initialValue h =
     (case vue_ref toReactive (case initialValue of None \<Rightarrow> Undefined | Some given \<Rightarrow> given) h of
        (valueRef, h') \<Rightarrow>
          (\<lparr>optional =
               \<lparr>read_value = (\<lambda>h. Optional_of (read_ref valueRef h)),
                assign_value = (\<lambda>newOptional h. assign_ref valueRef (unwrap newOptional) h)\<rparr>,
             ref = valueRef,
             setAsync = setAsync_of valueRef\<rparr>,
           h'))"

section \<open>The \<^verbatim>\<open>useMaybe\<close> composable\<close>

text \<open>
  \<^verbatim>\<open>useMaybe(value)\<close> wraps the plain parameter in computed getters that depend on no
  cell: each is a function of \<^verbatim>\<open>value\<close>. Its \<^verbatim>\<open>map\<close> builds a computed and reads it
  once, at once, so the mapper runs there (or throws there) when a value is held.
\<close>

record 'a MaybeOperations =
  maybeValue :: "'a nullable"

definition useMaybe :: "'a nullable \<Rightarrow> 'a MaybeOperations" where
  "useMaybe v = \<lparr>maybeValue = v\<rparr>"

definition hasValue :: "'a MaybeOperations \<Rightarrow> bool" where
  "hasValue m \<longleftrightarrow> maybeValue m \<noteq> Null \<and> maybeValue m \<noteq> Undefined"

definition useMaybe_isEmpty :: "'a MaybeOperations \<Rightarrow> bool" where
  "useMaybe_isEmpty m \<longleftrightarrow> maybeValue m = Null \<or> maybeValue m = Undefined"

definition useMaybe_map ::
  "'a MaybeOperations \<Rightarrow> ('a \<Rightarrow> ('x, 'w, 'b nullable) eff) \<Rightarrow> ('x, 'w, 'b MaybeOperations) eff" where
  "useMaybe_map m fn w =
     (case maybeValue m of
        Val v \<Rightarrow>
          (case fn v w of
             (Inl e, w') \<Rightarrow> (Inl e, w')
           | (Inr mappedValue, w') \<Rightarrow> (Inr (useMaybe mappedValue), w'))
      | _ \<Rightarrow> (Inr (useMaybe Undefined), w))"

definition useMaybePath ::
  "'a nullable \<Rightarrow> ('a \<Rightarrow> ('x, 'w, 'b nullable) eff) \<Rightarrow> ('x, 'w, 'b MaybeOperations) eff" where
  "useMaybePath obj accessor w = useMaybe_map (useMaybe obj) accessor w"

section \<open>Optional instances with identity\<close>

text \<open>
  To say that an operation returns a new object and leaves the old ones alone, the
  objects need identity. Every call of \<^verbatim>\<open>createOptional\<close> makes instance number
  \<open>created\<close> and records the \<^verbatim>\<open>value\<close> it captured; the methods that return an
  Optional are run on instance numbers. Caller-supplied functions run on the whole state,
  since they may create Optionals of their own.
\<close>

record ('v, 'w) instances =
  captured :: "nat \<Rightarrow> 'v nullable"
  created :: nat
  outside :: 'w

definition createOptional_inst :: "'v nullable \<Rightarrow> ('x, ('v, 'w) instances, nat) eff" where
  "createOptional_inst v s =
     (Inr (created s), s\<lparr>captured := (captured s)(created s := v), created := Suc (created s)\<rparr>)"

definition unwrap_inst :: "('v, 'w) instances \<Rightarrow> nat \<Rightarrow> 'v nullable" where
  "unwrap_inst s self = captured s self"

definition isPresent_inst :: "('v, 'w) instances \<Rightarrow> nat \<Rightarrow> bool" where
  "isPresent_inst s self \<longleftrightarrow> captured s self \<noteq> Null \<and> captured s self \<noteq> Undefined"

definition map_inst ::
  "nat \<Rightarrow> ('v \<Rightarrow> ('x, ('v, 'w) instances, 'v nullable) eff) \<Rightarrow> ('x, ('v, 'w) instances, nat) eff" where
  "map_inst self mapper s =
     (case captured s self of
        Null \<Rightarrow> createOptional_inst Undefined s
      | Undefined \<Rightarrow> createOptional_inst Undefined s
      | Val v \<Rightarrow>
          (case mapper v s of
             (Inl e, s') \<Rightarrow> (Inl e, s')
           | (Inr mapped, s') \<Rightarrow> createOptional_inst mapped s'))"

definition flatMap_inst ::
  "nat \<Rightarrow> ('v \<Rightarrow> ('x, ('v, 'w) instances, 'v nullable) eff) \<Rightarrow> ('x, ('v, 'w) instances, nat) eff" where
  "flatMap_inst self mapper s =
     (case captured s self of
        Null \<Rightarrow> createOptional_inst Undefined s
      | Undefined \<Rightarrow> createOptional_inst Undefined s
      | Val v \<Rightarrow>
          (case mapper v s of
             (Inl e, s') \<Rightarrow> (Inl e, s')
           | (Inr mapped, s') \<Rightarrow> createOptional_inst mapped s'))"

definition filter_inst ::
  "nat \<Rightarrow> ('v \<Rightarrow> ('x, ('v, 'w) instances, bool) eff) \<Rightarrow> ('x, ('v, 'w) instances, nat) eff" where
  "filter_inst self predicate s =
     (case captured s self of
        Null \<Rightarrow> createOptional_inst (captured s self) s
      | Undefined \<Rightarrow> createOptional_inst (captured s self) s
      | Val v \<Rightarrow>
          (case predicate v s of
             (Inl e, s') \<Rightarrow> (Inl e, s')
           | (Inr keep, s') \<Rightarrow>
               (if keep then createOptional_inst (captured s' self) s'
                else createOptional_inst Undefined s')))"

definition or_inst :: "nat \<Rightarrow> ('x, ('v, 'w) instances, nat) eff \<Rightarrow> ('x, ('v, 'w) instances, nat) eff" where
  "or_inst self supplier s =
     (if isPresent_inst s self then createOptional_inst (captured s self) s else supplier s)"

datatype ('v, 'x, 'w) chained =
    ThenMap "'v \<Rightarrow> ('x, ('v, 'w) instances, 'v nullable) eff"
  | ThenFlatMap "'v \<Rightarrow> ('x, ('v, 'w) instances, 'v nullable) eff"
  | ThenFilter "'v \<Rightarrow> ('x, ('v, 'w) instances, bool) eff"
  | ThenOr "('x, ('v, 'w) instances, nat) eff"

fun step :: "('v, 'x, 'w) chained \<Rightarrow> nat \<Rightarrow> ('x, ('v, 'w) instances, nat) eff" where
  "step (ThenMap mapper) self = map_inst self mapper"
| "step (ThenFlatMap mapper) self = flatMap_inst self mapper"
| "step (ThenFilter predicate) self = filter_inst self predicate"
| "step (ThenOr supplier) self = or_inst self supplier"

text \<open>
  A chain \<^verbatim>\<open>opt.m1(..).m2(..)...\<close>: each method runs on the instance the one before it
  returned, and a throw ends the chain.
\<close>

fun chain :: "('v, 'x, 'w) chained list \<Rightarrow> nat \<Rightarrow> ('x, ('v, 'w) instances, nat) eff" where
  "chain [] self s = (Inr self, s)"
| "chain (m # ms) self s =
     (case step m self s of
        (Inl e, s') \<Rightarrow> (Inl e, s')
      | (Inr next, s') \<Rightarrow> chain ms next s')"

text \<open>
  What the language grants of any caller-supplied function: it cannot assign the
  \<^verbatim>\<open>value\<close> an existing instance captured (no closure exposes it for writing) and it
  cannot unmake an instance. It may create instances.
\<close>

definition kept :: "('v, 'w) instances \<Rightarrow> ('v, 'w) instances \<Rightarrow> bool" where
  "kept s s' \<longleftrightarrow> created s \<le> created s' \<and> (\<forall>i<created s. captured s' i = captured s i)"

definition keeps_instances :: "('x, ('v, 'w) instances, 'r) eff \<Rightarrow> bool" where
  "keeps_instances f \<longleftrightarrow> (\<forall>s. kept s (snd (f s)))"

fun well_behaved :: "('v, 'x, 'w) chained \<Rightarrow> bool" where
  "well_behaved (ThenMap mapper) = (\<forall>v. keeps_instances (mapper v))"
| "well_behaved (ThenFlatMap mapper) = (\<forall>v. keeps_instances (mapper v))"
| "well_behaved (ThenFilter predicate) = (\<forall>v. keeps_instances (predicate v))"
| "well_behaved (ThenOr supplier) = keeps_instances supplier"

fun passes_on :: "('v, 'x, 'w) chained \<Rightarrow> bool" where
  "passes_on (ThenOr supplier) = True"
| "passes_on _ = False"

section \<open>Properties of Optional\<close>


lemma isEmpty_iff_not_isPresent: "isEmpty opt \<longleftrightarrow> \<not> isPresent opt"
  by (auto simp: isEmpty_def isPresent_def)

lemma isPresent_iff_Val: "isPresent opt \<longleftrightarrow> (\<exists>v. value_of opt = Val v)"
  by (cases "value_of opt") (simp_all add: isPresent_def)

text \<open>
  C1. \<open>map\<close> on an Absent Optional returns an Absent Optional and leaves the world as it
  was, whatever the mapper would do to it: the mapper is not invoked, and a call-counting
  probe around it keeps its count. On \<open>Present v\<close> it returns \<open>Optional.of (fn v)\<close>, the
  probe counts one call, and a mapper that returns an absence marker gives an Absent result.
\<close>

theorem map_absent_short_circuit_present_of:
  fixes fn :: "'a \<Rightarrow> ('x, 'w, 'b nullable) eff"
  shows "(isEmpty opt \<longrightarrow>
            map_opt opt fn w = (Inr (createOptional Undefined), w)
          \<and> isEmpty (createOptional Undefined :: 'b optional)
          \<and> snd (map_opt opt (\<lambda>v. counting (fn v)) (n, w)) = (n, w))
       \<and> (value_of opt = Val v \<longrightarrow>
            map_opt opt fn w =
              (case fn v w of
                 (Inl e, w') \<Rightarrow> (Inl e, w')
               | (Inr r, w') \<Rightarrow> (Inr (Optional_of r), w'))
          \<and> fst (snd (map_opt opt (\<lambda>v. counting (fn v)) (n, w))) = Suc n)
       \<and> (value_of opt = Val v \<and> fn v w = (Inr m, w') \<and> (m = Null \<or> m = Undefined) \<longrightarrow>
            (\<exists>r. map_opt opt fn w = (Inr r, w') \<and> isEmpty r))"
proof (intro conjI impI)
  assume "isEmpty opt"
  then show "map_opt opt fn w = (Inr (createOptional Undefined), w)"
    by (auto simp: isEmpty_def map_opt_def)
  from \<open>isEmpty opt\<close> show "snd (map_opt opt (\<lambda>v. counting (fn v)) (n, w)) = (n, w)"
    by (auto simp: isEmpty_def map_opt_def)
next
  show "isEmpty (createOptional Undefined :: 'b optional)"
    by (simp add: isEmpty_def createOptional_def)
next
  assume "value_of opt = Val v"
  then show "map_opt opt fn w =
      (case fn v w of (Inl e, w') \<Rightarrow> (Inl e, w') | (Inr r, w') \<Rightarrow> (Inr (Optional_of r), w'))"
    by (simp add: map_opt_def Optional_of_def split: prod.splits sum.splits)
  from \<open>value_of opt = Val v\<close>
  show "fst (snd (map_opt opt (\<lambda>v. counting (fn v)) (n, w))) = Suc n"
    by (simp add: map_opt_def counting_def split: prod.splits sum.splits)
next
  assume "value_of opt = Val v \<and> fn v w = (Inr m, w') \<and> (m = Null \<or> m = Undefined)"
  then show "\<exists>r. map_opt opt fn w = (Inr r, w') \<and> isEmpty r"
    by (auto simp: map_opt_def isEmpty_def createOptional_def)
qed

theorem map_absent_short_circuit_present_of_witness:
  "map_opt (createOptional (Null :: nat nullable))
       (\<lambda>v w. (Inr (Val (Suc v)) :: unit thrown + nat nullable, Suc w)) (0::nat) =
     (Inr (createOptional Undefined), 0)
   \<and> snd (map_opt (createOptional (Null :: nat nullable))
       (\<lambda>v. counting (\<lambda>w. (Inr (Val (Suc v)) :: unit thrown + nat nullable, Suc w))) (0, 0::nat)) = (0, 0)
   \<and> map_opt (createOptional (Val (1::nat)))
       (\<lambda>v w. (Inr (Val (Suc v)) :: unit thrown + nat nullable, Suc w)) (0::nat) =
     (Inr (Optional_of (Val 2)), 1)
   \<and> fst (snd (map_opt (createOptional (Val (1::nat)))
       (\<lambda>v. counting (\<lambda>w. (Inr (Val (Suc v)) :: unit thrown + nat nullable, Suc w))) (0, 0::nat))) = 1
   \<and> (\<exists>r. map_opt (createOptional (Val (1::nat)))
       (\<lambda>v w. (Inr Null :: unit thrown + nat nullable, w)) (0::nat) = (Inr r, 0) \<and> isEmpty r)"
  using map_absent_short_circuit_present_of
          [where opt = "createOptional (Null :: nat nullable)"
             and fn = "\<lambda>v w. (Inr (Val (Suc v)) :: unit thrown + nat nullable, Suc w)"
             and w = "0::nat" and n = 0]
        map_absent_short_circuit_present_of
          [where opt = "createOptional (Val (1::nat))"
             and fn = "\<lambda>v w. (Inr (Val (Suc v)) :: unit thrown + nat nullable, Suc w)"
             and w = "0::nat" and n = 0 and v = 1]
        map_absent_short_circuit_present_of
          [where opt = "createOptional (Val (1::nat))"
             and fn = "\<lambda>v w. (Inr Null :: unit thrown + nat nullable, w)"
             and w = "0::nat" and v = 1 and m = Null and w' = 0]
  by (simp add: isEmpty_def createOptional_def Optional_of_def numeral_2_eq_2)

text \<open>
  C2. \<open>flatMap\<close> and \<open>map\<close> give the same outcome on every receiver, function and world:
  the same thrown value or the same Optional (so the same presence state and the same
  unwrapped value), and the same world left behind.
\<close>

theorem flatMap_same_as_map:
  "flatMap opt fn w = map_opt opt fn w"
  by (simp add: flatMap_def map_opt_def)

text \<open>
  C4. \<open>Optional.of\<close> of a raw value that is neither marker is Present and unwraps to that
  value, also for zero, the empty string and \<open>false\<close>; of either marker it is Absent.
  Presence is exactly not being one of the two markers.
\<close>

theorem of_presence_is_marker_identity:
  "(raw \<noteq> Null \<and> raw \<noteq> Undefined \<longrightarrow>
      isPresent (Optional_of raw) \<and> unwrap (Optional_of raw) = raw)
   \<and> isPresent (Optional_of (Val (0::int))) \<and> unwrap (Optional_of (Val (0::int))) = Val 0
   \<and> isPresent (Optional_of (Val (''''::string))) \<and> unwrap (Optional_of (Val (''''::string))) = Val ''''
   \<and> isPresent (Optional_of (Val False)) \<and> unwrap (Optional_of (Val False)) = Val False
   \<and> isEmpty (Optional_of (Null :: 'a nullable)) \<and> isEmpty (Optional_of (Undefined :: 'a nullable))
   \<and> (isPresent (Optional_of (raw :: 'a nullable)) \<longleftrightarrow> raw \<noteq> Null \<and> raw \<noteq> Undefined)"
  by (simp add: Optional_of_def createOptional_def isPresent_def isEmpty_def unwrap_def)

theorem of_presence_is_marker_identity_witness:
  "isPresent (Optional_of (Val (42::int))) \<and> unwrap (Optional_of (Val (42::int))) = Val 42
   \<and> \<not> isPresent (Optional_of (Null :: int nullable))"
  using of_presence_is_marker_identity [where raw = "Val (42::int)"]
        of_presence_is_marker_identity [where raw = "Null :: int nullable"]
  by simp

text \<open>
  C10, as the code has it. On an Absent receiver \<open>map\<close> and \<open>flatMap\<close> return an
  Optional that holds \<open>undefined\<close>, whichever marker the receiver held, while \<open>filter\<close>
  returns one that holds the receiver's own marker: \<open>Optional.of(null).map(f)\<close> unwraps
  to \<open>undefined\<close> and \<open>Optional.of(null).filter(p)\<close> unwraps to \<open>null\<close>. On a Present
  receiver the result of \<open>map\<close> and \<open>flatMap\<close> holds what the mapper returned, marker
  or not.
\<close>

theorem absent_marker_map_undefined_filter_kept:
  fixes f :: "'a \<Rightarrow> ('x, 'w, 'b nullable) eff" and p :: "'a \<Rightarrow> ('x, 'w, bool) eff"
  shows "(\<exists>r. map_opt (Optional_of Null) f w = (Inr r, w) \<and> unwrap r = Undefined)
   \<and> (\<exists>r. filter_opt (Optional_of Null) p w = (Inr r, w) \<and> unwrap r = Null)
   \<and> (isEmpty opt \<longrightarrow>
        (\<exists>r. map_opt opt f w = (Inr r, w) \<and> unwrap r = Undefined)
      \<and> (\<exists>r. flatMap opt f w = (Inr r, w) \<and> unwrap r = Undefined)
      \<and> (\<exists>r. filter_opt opt p w = (Inr r, w) \<and> unwrap r = unwrap opt))
   \<and> (value_of opt = Val v \<and> f v w = (Inr m, w') \<longrightarrow>
        (\<exists>r. map_opt opt f w = (Inr r, w') \<and> unwrap r = m)
      \<and> (\<exists>r. flatMap opt f w = (Inr r, w') \<and> unwrap r = m))"
  by (auto simp: Optional_of_def createOptional_def map_opt_def flatMap_def filter_opt_def
      unwrap_def isEmpty_def)

theorem absent_marker_map_undefined_filter_kept_witness:
  "(\<exists>r. flatMap (createOptional (Null :: nat nullable))
          (\<lambda>v w. (Inr (Val v) :: unit thrown + nat nullable, w)) (0::nat) = (Inr r, 0)
        \<and> unwrap r = Undefined)
   \<and> (\<exists>r. filter_opt (createOptional (Null :: nat nullable))
          (\<lambda>v w. (Inr True :: unit thrown + bool, w)) (0::nat) = (Inr r, 0)
        \<and> unwrap r = Null)
   \<and> (\<exists>r. map_opt (createOptional (Val (5::nat)))
          (\<lambda>v w. (Inr (Val (Suc v)) :: unit thrown + nat nullable, w)) (0::nat) = (Inr r, 0)
        \<and> unwrap r = Val 6)"
  using absent_marker_map_undefined_filter_kept
          [where opt = "createOptional (Null :: nat nullable)"
             and f = "\<lambda>v w. (Inr (Val v) :: unit thrown + nat nullable, w)"
             and p = "\<lambda>v w. (Inr True :: unit thrown + bool, w)" and w = "0::nat"]
        absent_marker_map_undefined_filter_kept
          [where opt = "createOptional (Val (5::nat))"
             and f = "\<lambda>v w. (Inr (Val (Suc v)) :: unit thrown + nat nullable, w)"
             and p = "\<lambda>v w. (Inr True :: unit thrown + bool, w)" and w = "0::nat"
             and v = 5 and m = "Val 6" and w' = 0]
  by (simp add: isEmpty_def createOptional_def unwrap_def)

text \<open>
  C10 as stated has every Absent result of \<open>map\<close> hold \<open>undefined\<close>. On the Present
  receiver \<open>Optional.of(5)\<close> with a mapper that returns \<open>null\<close>, the result is Absent and
  holds \<open>null\<close>.
\<close>

theorem map_result_holds_the_null_its_mapper_returned:
  "map_opt (Optional_of (Val (5::nat)))
       (\<lambda>v w. (Inr (Null :: nat nullable) :: unit thrown + nat nullable, w)) (0::nat) =
     (Inr (createOptional Null), 0)
   \<and> isEmpty (createOptional (Null :: nat nullable))
   \<and> unwrap (createOptional (Null :: nat nullable)) = Null
   \<and> unwrap (createOptional (Null :: nat nullable)) \<noteq> Undefined"
  by (simp add: map_opt_def Optional_of_def createOptional_def isEmpty_def unwrap_def)

text \<open>
  C8. \<open>optionalPath obj accessor\<close> is \<open>Optional.of(obj).map(accessor)\<close>, and
  \<open>useMaybePath obj accessor\<close> has the same outcome with the result wrapped by
  \<open>useMaybe\<close>: the same unwrapped value and presence. On an absent \<open>obj\<close> the accessor is
  not invoked (the world and a probe's count stay as they were) and the result is Absent;
  an accessor that throws makes both throw what it threw.
\<close>

theorem optionalPath_is_of_then_map:
  fixes accessor :: "'a \<Rightarrow> ('x, 'w, 'b nullable) eff"
  shows "optionalPath obj accessor w = map_opt (Optional_of obj) accessor w
   \<and> returning (\<lambda>m. (maybeValue m, hasValue m)) (useMaybePath obj accessor w) =
       returning (\<lambda>r. (unwrap r, isPresent r)) (map_opt (Optional_of obj) accessor w)
   \<and> (obj = Null \<or> obj = Undefined \<longrightarrow>
        optionalPath obj accessor w = (Inr (createOptional Undefined), w)
      \<and> useMaybePath obj accessor w = (Inr (useMaybe Undefined), w)
      \<and> snd (optionalPath obj (\<lambda>v. counting (accessor v)) (n, w)) = (n, w)
      \<and> snd (useMaybePath obj (\<lambda>v. counting (accessor v)) (n, w)) = (n, w))
   \<and> (obj = Val v \<and> accessor v w = (Inl e, w') \<longrightarrow>
        optionalPath obj accessor w = (Inl e, w')
      \<and> useMaybePath obj accessor w = (Inl e, w'))"
  by (cases obj)
     (auto simp: optionalPath_def useMaybePath_def useMaybe_map_def useMaybe_def map_opt_def
        Optional_of_def createOptional_def returning_def unwrap_def hasValue_def isPresent_def
        split: prod.splits sum.splits)

theorem optionalPath_is_of_then_map_witness:
  "optionalPath (Undefined :: nat nullable)
       (\<lambda>v w. (Inr (Val (Suc v)) :: unit thrown + nat nullable, Suc w)) (0::nat) =
     (Inr (createOptional Undefined), 0)
   \<and> useMaybePath (Undefined :: nat nullable)
       (\<lambda>v w. (Inr (Val (Suc v)) :: unit thrown + nat nullable, Suc w)) (0::nat) =
     (Inr (useMaybe Undefined), 0)
   \<and> optionalPath (Val (7::nat))
       (\<lambda>v w. (Inl (Error ''boom'') :: unit thrown + nat nullable, Suc w)) (0::nat) =
     (Inl (Error ''boom''), 1)
   \<and> useMaybePath (Val (7::nat))
       (\<lambda>v w. (Inl (Error ''boom'') :: unit thrown + nat nullable, Suc w)) (0::nat) =
     (Inl (Error ''boom''), 1)"
  using optionalPath_is_of_then_map
          [where obj = "Undefined :: nat nullable"
             and accessor = "\<lambda>v w. (Inr (Val (Suc v)) :: unit thrown + nat nullable, Suc w)"
             and w = "0::nat"]
        optionalPath_is_of_then_map
          [where obj = "Val (7::nat)"
             and accessor = "\<lambda>v w. (Inl (Error ''boom'') :: unit thrown + nat nullable, Suc w)"
             and w = "0::nat" and v = 7 and e = "Error ''boom''" and w' = 1]
  by (simp add: map_opt_def Optional_of_def createOptional_def returning_def)

text \<open>
  C7, as the code has it. On a Present receiver \<open>orElseGetAsync\<close> does not invoke the
  supplier and resolves its promise with the held value: fulfilled with it when it is not
  a thenable, settled as the held value settles when it is one. On an Absent receiver it
  invokes the supplier once, whatever comes of it, and settles as the supplier's promise
  does: fulfilled with the value it resolved to, or rejected with its reason; a supplier
  that throws rejects it too. Nothing is caught. (The host never fulfils a promise with a
  thenable; the model does not assume it, so it is the side condition \<open>thenable r = None\<close>.)
\<close>

theorem orElseGetAsync_lazy_once_uncaught:
  fixes supplier :: "('x, 'w, ('x, 'a) promise) eff" and thenable :: "'a \<Rightarrow> ('x, 'a) promise option"
  shows "(value_of opt = Val v \<longrightarrow>
            orElseGetAsync thenable opt supplier w = (resolve thenable v, w)
          \<and> snd (orElseGetAsync thenable opt (counting supplier) (n, w)) = (n, w))
       \<and> (value_of opt = Val v \<and> thenable v = None \<longrightarrow>
            orElseGetAsync thenable opt supplier w = (Fulfilled v, w))
       \<and> (value_of opt = Val v \<and> thenable v = Some held \<longrightarrow>
            orElseGetAsync thenable opt supplier w = (held, w))
       \<and> (isEmpty opt \<longrightarrow>
            fst (snd (orElseGetAsync thenable opt (counting supplier) (n, w))) = Suc n
          \<and> snd (orElseGetAsync thenable opt supplier w) = snd (supplier w))
       \<and> (isEmpty opt \<and> supplier w = (Inr (Fulfilled r), w') \<and> thenable r = None \<longrightarrow>
            orElseGetAsync thenable opt supplier w = (Fulfilled r, w'))
       \<and> (isEmpty opt \<and> supplier w = (Inr (Rejected e), w') \<longrightarrow>
            orElseGetAsync thenable opt supplier w = (Rejected e, w'))
       \<and> (isEmpty opt \<and> supplier w = (Inl e, w') \<longrightarrow>
            orElseGetAsync thenable opt supplier w = (Rejected e, w'))"
proof (intro conjI impI)
  assume present: "value_of opt = Val v"
  then have "isPresent opt" by (simp add: isPresent_def)
  with present show "orElseGetAsync thenable opt supplier w = (resolve thenable v, w)"
    by (simp add: orElseGetAsync_def get_def async_result_def)
  from \<open>isPresent opt\<close>
  show "snd (orElseGetAsync thenable opt (counting supplier) (n, w)) = (n, w)"
    by (simp add: orElseGetAsync_def)
next
  assume "value_of opt = Val v \<and> thenable v = None"
  then show "orElseGetAsync thenable opt supplier w = (Fulfilled v, w)"
    by (simp add: isPresent_def orElseGetAsync_def get_def async_result_def resolve_def)
next
  assume "value_of opt = Val v \<and> thenable v = Some held"
  then show "orElseGetAsync thenable opt supplier w = (held, w)"
    by (simp add: isPresent_def orElseGetAsync_def get_def async_result_def resolve_def)
next
  assume "isEmpty opt"
  then have absent: "\<not> isPresent opt" by (simp add: isEmpty_iff_not_isPresent)
  then show "fst (snd (orElseGetAsync thenable opt (counting supplier) (n, w))) = Suc n"
    by (simp add: orElseGetAsync_def counting_def split: prod.splits sum.splits)
  from absent show "snd (orElseGetAsync thenable opt supplier w) = snd (supplier w)"
    by (simp add: orElseGetAsync_def split: prod.splits sum.splits)
next
  assume "isEmpty opt \<and> supplier w = (Inr (Fulfilled r), w') \<and> thenable r = None"
  then show "orElseGetAsync thenable opt supplier w = (Fulfilled r, w')"
    by (simp add: isEmpty_iff_not_isPresent orElseGetAsync_def await_def async_result_def
        resolve_def)
next
  assume "isEmpty opt \<and> supplier w = (Inr (Rejected e), w')"
  then show "orElseGetAsync thenable opt supplier w = (Rejected e, w')"
    by (simp add: isEmpty_iff_not_isPresent orElseGetAsync_def await_def async_result_def)
next
  assume "isEmpty opt \<and> supplier w = (Inl e, w')"
  then show "orElseGetAsync thenable opt supplier w = (Rejected e, w')"
    by (simp add: isEmpty_iff_not_isPresent orElseGetAsync_def)
qed

theorem orElseGetAsync_lazy_once_uncaught_witness:
  "orElseGetAsync thenable_js (createOptional (Val (Num 5)))
       (\<lambda>w. (Inr (Fulfilled (Num 9)) :: unit thrown + (unit, js) promise, Suc w)) (0::nat) =
     (Fulfilled (Num 5), 0)
   \<and> orElseGetAsync thenable_js (createOptional (Val (PromiseObj (Fulfilled (Num 3)))))
       (\<lambda>w. (Inr (Fulfilled (Num 9)) :: unit thrown + (unit, js) promise, Suc w)) (0::nat) =
     (Fulfilled (Num 3), 0)
   \<and> orElseGetAsync thenable_js (createOptional Undefined)
       (\<lambda>w. (Inr (Fulfilled (Num 9)) :: unit thrown + (unit, js) promise, Suc w)) (0::nat) =
     (Fulfilled (Num 9), 1)
   \<and> fst (snd (orElseGetAsync thenable_js (createOptional Undefined)
       (counting (\<lambda>w. (Inr (Fulfilled (Num 9)) :: unit thrown + (unit, js) promise, Suc w)))
       (0, 0::nat))) = 1
   \<and> orElseGetAsync thenable_js (createOptional Undefined)
       (\<lambda>w. (Inr (Rejected (Error ''down'')) :: unit thrown + (unit, js) promise, Suc w)) (0::nat) =
     (Rejected (Error ''down''), 1)"
  using orElseGetAsync_lazy_once_uncaught
          [where thenable = thenable_js and opt = "createOptional (Val (Num 5))"
             and supplier = "\<lambda>w. (Inr (Fulfilled (Num 9)) :: unit thrown + (unit, js) promise, Suc w)"
             and w = "0::nat" and v = "Num 5"]
        orElseGetAsync_lazy_once_uncaught
          [where thenable = thenable_js
             and opt = "createOptional (Val (PromiseObj (Fulfilled (Num 3))))"
             and supplier = "\<lambda>w. (Inr (Fulfilled (Num 9)) :: unit thrown + (unit, js) promise, Suc w)"
             and w = "0::nat" and v = "PromiseObj (Fulfilled (Num 3))" and held = "Fulfilled (Num 3)"]
        orElseGetAsync_lazy_once_uncaught
          [where thenable = thenable_js and opt = "createOptional Undefined"
             and supplier = "\<lambda>w. (Inr (Fulfilled (Num 9)) :: unit thrown + (unit, js) promise, Suc w)"
             and w = "0::nat" and r = "Num 9" and w' = 1 and n = 0]
        orElseGetAsync_lazy_once_uncaught
          [where thenable = thenable_js and opt = "createOptional Undefined"
             and supplier = "\<lambda>w. (Inr (Rejected (Error ''down'')) :: unit thrown + (unit, js) promise, Suc w)"
             and w = "0::nat" and e = "Error ''down''" and w' = 1]
  by (simp add: isEmpty_def createOptional_def thenable_js_def resolve_def)

text \<open>
  C7 as stated has a Present receiver's held value returned. When the held value is a
  promise that rejects, the promise \<open>orElseGetAsync\<close> returns is rejected with that
  reason, and is not fulfilled with the held value.
\<close>

theorem orElseGetAsync_adopts_a_held_promise:
  "isPresent (Optional_of (Val (PromiseObj (Rejected (Error ''boom'')))))
   \<and> orElseGetAsync thenable_js (Optional_of (Val (PromiseObj (Rejected (Error ''boom'')))))
       (\<lambda>w. (Inr (Fulfilled (Num 9)) :: unit thrown + (unit, js) promise, Suc w)) (0::nat) =
     (Rejected (Error ''boom''), 0)
   \<and> orElseGetAsync thenable_js (Optional_of (Val (PromiseObj (Rejected (Error ''boom'')))))
       (\<lambda>w. (Inr (Fulfilled (Num 9)) :: unit thrown + (unit, js) promise, Suc w)) (0::nat) \<noteq>
     (Fulfilled (PromiseObj (Rejected (Error ''boom''))), 0)"
  by (simp add: orElseGetAsync_def Optional_of_def createOptional_def isPresent_def get_def
      async_result_def resolve_def thenable_js_def)

section \<open>Properties of the reactive adapters\<close>

lemma kept_as_simps:
  "kept_as keep Null = Null" "kept_as keep Undefined = Undefined" "kept_as keep (Val x) = Val (keep x)"
  by (simp_all add: kept_as_def)

lemma read_after_assign_ref: "read_ref r (assign_ref r raw h) = kept_as (keeps r) raw"
  by (simp add: read_ref_def assign_ref_def)

lemma console_after_assign_ref: "console_error (assign_ref r raw h) = console_error h"
  by (simp add: assign_ref_def)

lemma useReactiveOptional_parts:
  "ref (fst (useReactiveOptional toReactive init start)) = \<lparr>address = next_cell start, keeps = toReactive\<rparr>"
  "read_value (optional (fst (useReactiveOptional toReactive init start))) h =
     Optional_of (read_ref \<lparr>address = next_cell start, keeps = toReactive\<rparr> h)"
  "assign_value (optional (fst (useReactiveOptional toReactive init start))) newOptional h =
     assign_ref \<lparr>address = next_cell start, keeps = toReactive\<rparr> (unwrap newOptional) h"
  "setAsync (fst (useReactiveOptional toReactive init start)) =
     setAsync_of \<lparr>address = next_cell start, keeps = toReactive\<rparr>"
  by (simp_all add: useReactiveOptional_def vue_ref_def)

lemma useReactiveOptional_view_is_refAsOptional:
  "optional (fst (useReactiveOptional toReactive init start)) =
     refAsOptional (ref (fst (useReactiveOptional toReactive init start)))"
  by (simp add: useReactiveOptional_def vue_ref_def refAsOptional_def)

lemma useReactiveOptional_initial:
  "read_ref (ref (fst (useReactiveOptional toReactive None start)))
     (snd (useReactiveOptional toReactive None start)) = Undefined"
  "read_ref (ref (fst (useReactiveOptional toReactive (Some given) start)))
     (snd (useReactiveOptional toReactive (Some given) start)) = kept_as toReactive given"
  by (simp_all add: useReactiveOptional_def vue_ref_def read_ref_def kept_as_def)

text \<open>
  C3, as the code has it. For the container \<open>useReactiveOptional\<close> returns, in any later
  state and whatever ran while \<open>setAsync\<close> was suspended: a promise fulfilled with a
  defined value \<open>r\<close> leaves in the cell what the deep ref keeps of \<open>r\<close> (\<open>toReactive r\<close>:
  \<open>r\<close> itself where \<open>toReactive\<close> leaves it alone, as it does a primitive) and the view
  Present, unwrapping to the cell's content; one fulfilled with a marker leaves that
  marker in the cell and the view Absent; a rejected one adds exactly one entry, with the
  reason, to the \<open>console.error\<close> log, leaves \<open>undefined\<close> in the cell and the view
  Absent. In all three the promise \<open>setAsync\<close> returned is fulfilled.
\<close>

theorem setAsync_settles_cell_and_swallows_failure:
  fixes start h :: "('a, 'x) host"
  shows "(let c = fst (useReactiveOptional toReactive init start) in
         (let after = setAsync c (Fulfilled (Val r)) during h
          in fst after = Fulfilled ()
           \<and> read_ref (ref c) (snd after) = Val (toReactive r)
           \<and> isPresent (read_value (optional c) (snd after))
           \<and> unwrap (read_value (optional c) (snd after)) = Val (toReactive r)
           \<and> console_error (snd after) = console_error (during h))
       \<and> (toReactive r = r \<longrightarrow>
           (let after = setAsync c (Fulfilled (Val r)) during h
            in read_ref (ref c) (snd after) = Val r
             \<and> unwrap (read_value (optional c) (snd after)) = Val r))
       \<and> (m = Null \<or> m = Undefined \<longrightarrow>
           (let after = setAsync c (Fulfilled m) during h
            in fst after = Fulfilled ()
             \<and> read_ref (ref c) (snd after) = m
             \<and> isEmpty (read_value (optional c) (snd after))
             \<and> console_error (snd after) = console_error (during h)))
       \<and> (let after = setAsync c (Rejected e) during h
          in fst after = Fulfilled ()
           \<and> console_error (snd after) =
               console_error (during h) @ [(''useReactiveOptional setAsync failed:'', e)]
           \<and> read_ref (ref c) (snd after) = Undefined
           \<and> isEmpty (read_value (optional c) (snd after))))"
  by (auto simp: useReactiveOptional_parts setAsync_of_def await_def Let_def Optional_of_def
      createOptional_def isPresent_def isEmpty_def unwrap_def read_after_assign_ref
      console_after_assign_ref kept_as_simps)

theorem setAsync_settles_cell_and_swallows_failure_witness:
  "(let start = \<lparr>cells = (\<lambda>_. Undefined), next_cell = 0, console_error = []\<rparr> :: (js, unit) host;
        c = fst (useReactiveOptional toReactive_js (Some (Val (Str ''old''))) start);
        h1 = snd (useReactiveOptional toReactive_js (Some (Val (Str ''old''))) start)
    in isPresent (read_value (optional c) h1)
     \<and> unwrap (read_value (optional c)
          (snd (setAsync c (Fulfilled (Val (Str ''new''))) (\<lambda>h. h) h1))) = Val (Str ''new'')
     \<and> unwrap (read_value (optional c)
          (snd (setAsync c (Fulfilled (Val (Obj 1))) (\<lambda>h. h) h1))) = Val (Proxy 1)
     \<and> isEmpty (read_value (optional c) (snd (setAsync c (Fulfilled Null) (\<lambda>h. h) h1)))
     \<and> isEmpty (read_value (optional c) (snd (setAsync c (Rejected (Error ''failed'')) (\<lambda>h. h) h1)))
     \<and> console_error (snd (setAsync c (Rejected (Error ''failed'')) (\<lambda>h. h) h1)) =
         [(''useReactiveOptional setAsync failed:'', Error ''failed'')]
     \<and> fst (setAsync c (Rejected (Error ''failed'')) (\<lambda>h. h) h1) = Fulfilled ())"
  using setAsync_settles_cell_and_swallows_failure
          [where toReactive = toReactive_js and init = "Some (Val (Str ''old''))"
             and start = "\<lparr>cells = (\<lambda>_. Undefined), next_cell = 0, console_error = []\<rparr> :: (js, unit) host"
             and h = "snd (useReactiveOptional toReactive_js (Some (Val (Str ''old'')))
                        (\<lparr>cells = (\<lambda>_. Undefined), next_cell = 0, console_error = []\<rparr> :: (js, unit) host))"
             and during = "\<lambda>h. h" and r = "Str ''new''" and m = Null and e = "Error ''failed''"]
        setAsync_settles_cell_and_swallows_failure
          [where toReactive = toReactive_js and init = "Some (Val (Str ''old''))"
             and start = "\<lparr>cells = (\<lambda>_. Undefined), next_cell = 0, console_error = []\<rparr> :: (js, unit) host"
             and h = "snd (useReactiveOptional toReactive_js (Some (Val (Str ''old'')))
                        (\<lparr>cells = (\<lambda>_. Undefined), next_cell = 0, console_error = []\<rparr> :: (js, unit) host))"
             and during = "\<lambda>h. h" and r = "Obj 1" and m = Null and e = "Error ''failed''"]
  by (simp add: Let_def useReactiveOptional_def vue_ref_def Optional_of_def createOptional_def
      isPresent_def isEmpty_def unwrap_def setAsync_of_def await_def read_ref_def assign_ref_def
      kept_as_def toReactive_js_def)

text \<open>
  C3 as stated has the cell hold \<open>r\<close>. When the promise resolves to a plain object, the
  deep ref holds the reactive proxy of that object, which is another value, and the view
  unwraps to the proxy.
\<close>

theorem setAsync_keeps_the_proxy_of_an_object:
  "read_ref (ref (fst (useReactiveOptional toReactive_js None
        (\<lparr>cells = (\<lambda>_. Undefined), next_cell = 0, console_error = []\<rparr> :: (js, unit) host))))
     (snd (setAsync (fst (useReactiveOptional toReactive_js None
        (\<lparr>cells = (\<lambda>_. Undefined), next_cell = 0, console_error = []\<rparr> :: (js, unit) host)))
        (Fulfilled (Val (Obj 1))) (\<lambda>h. h)
        (snd (useReactiveOptional toReactive_js None
        (\<lparr>cells = (\<lambda>_. Undefined), next_cell = 0, console_error = []\<rparr> :: (js, unit) host)))))
     = Val (Proxy 1)
   \<and> Val (Proxy 1) \<noteq> Val (Obj 1)"
  by (simp add: useReactiveOptional_def vue_ref_def setAsync_of_def await_def read_ref_def
      assign_ref_def kept_as_def toReactive_js_def)

text \<open>
  C6, as the code has it. Assigning \<open>Optional.of(x)\<close>, \<open>x\<close> defined, to the view stores in
  the underlying cell what that cell keeps of \<open>x\<close> (\<open>x\<close> itself for a cell that keeps
  values as they are, and for a primitive in a deep ref), and the next read of the view
  unwraps to exactly the cell's content; assigning \<open>Optional.empty()\<close> makes the next
  read Absent. This holds for the view \<open>refAsOptional\<close> makes over any cell and for the
  view of a \<open>useReactiveOptional\<close> container.
\<close>

theorem view_write_then_read_round_trip:
  fixes start h :: "('a, 'x) host"
  shows "(let view = refAsOptional source; h' = assign_value view (Optional_of (Val x)) h
          in read_ref source h' = Val (keeps source x)
           \<and> unwrap (read_value view h') = read_ref source h'
           \<and> isPresent (read_value view h'))
       \<and> (keeps source x = x \<longrightarrow>
           (let view = refAsOptional source; h' = assign_value view (Optional_of (Val x)) h
            in read_ref source h' = Val x \<and> unwrap (read_value view h') = Val x))
       \<and> (let view = refAsOptional source; h' = assign_value view Optional_empty h
          in isEmpty (read_value view h') \<and> unwrap (read_value view h') = read_ref source h')
       \<and> (let c = fst (useReactiveOptional toReactive init start);
              h' = assign_value (optional c) (Optional_of (Val x)) h
          in read_ref (ref c) h' = Val (toReactive x)
           \<and> unwrap (read_value (optional c) h') = read_ref (ref c) h'
           \<and> isPresent (read_value (optional c) h'))
       \<and> (toReactive x = x \<longrightarrow>
           (let c = fst (useReactiveOptional toReactive init start);
                h' = assign_value (optional c) (Optional_of (Val x)) h
            in read_ref (ref c) h' = Val x \<and> unwrap (read_value (optional c) h') = Val x))
       \<and> (let c = fst (useReactiveOptional toReactive init start);
              h' = assign_value (optional c) Optional_empty h
          in isEmpty (read_value (optional c) h'))"
  by (simp add: useReactiveOptional_parts refAsOptional_def Let_def Optional_of_def Optional_empty_def
      createOptional_def isEmpty_def isPresent_def unwrap_def read_after_assign_ref kept_as_simps)

theorem view_write_then_read_round_trip_witness:
  "(let start = \<lparr>cells = (\<lambda>_. Undefined), next_cell = 0, console_error = []\<rparr> :: (js, unit) host;
        c = fst (useReactiveOptional toReactive_js None start);
        h1 = snd (useReactiveOptional toReactive_js None start);
        h2 = assign_value (optional c) (Optional_of (Val (Num 42))) h1
    in isEmpty (read_value (optional c) h1)
     \<and> unwrap (read_value (optional c) h2) = Val (Num 42)
     \<and> read_ref (ref c) h2 = Val (Num 42))"
  using view_write_then_read_round_trip
          [where toReactive = toReactive_js and init = "None"
             and start = "\<lparr>cells = (\<lambda>_. Undefined), next_cell = 0, console_error = []\<rparr> :: (js, unit) host"
             and h = "snd (useReactiveOptional toReactive_js None
                        (\<lparr>cells = (\<lambda>_. Undefined), next_cell = 0, console_error = []\<rparr> :: (js, unit) host))"
             and x = "Num 42" and source = "\<lparr>address = 0, keeps = toReactive_js\<rparr>"]
  by (simp add: Let_def useReactiveOptional_def vue_ref_def Optional_of_def createOptional_def
      isEmpty_def unwrap_def read_ref_def assign_ref_def kept_as_def toReactive_js_def)

text \<open>
  C6 as stated has the cell store \<open>x\<close> and the next read unwrap to \<open>x\<close>. For a plain
  object written through the view of a container, the cell stores its reactive proxy and
  the read unwraps to the proxy.
\<close>

theorem view_write_of_an_object_reads_back_its_proxy:
  "unwrap (read_value (optional (fst (useReactiveOptional toReactive_js None
        (\<lparr>cells = (\<lambda>_. Undefined), next_cell = 0, console_error = []\<rparr> :: (js, unit) host))))
     (assign_value (optional (fst (useReactiveOptional toReactive_js None
        (\<lparr>cells = (\<lambda>_. Undefined), next_cell = 0, console_error = []\<rparr> :: (js, unit) host))))
        (Optional_of (Val (Obj 1)))
        (snd (useReactiveOptional toReactive_js None
        (\<lparr>cells = (\<lambda>_. Undefined), next_cell = 0, console_error = []\<rparr> :: (js, unit) host)))))
     = Val (Proxy 1)
   \<and> Val (Proxy 1) \<noteq> Val (Obj 1)"
  by (simp add: useReactiveOptional_def vue_ref_def Optional_of_def createOptional_def unwrap_def
      read_ref_def assign_ref_def kept_as_def toReactive_js_def)

section \<open>Which methods throw\<close>

lemma throws_returning [simp]: "throws (returning wrap outcome) = throws outcome"
  by (cases outcome) (auto simp: throws_def returning_def split: sum.splits)

lemma throws_pair [simp]: "throws (outcome, w) = isl outcome"
  by (simp add: throws_def)

lemma returns_not_throws: "returns f \<Longrightarrow> \<not> throws (f w)"
  by (simp add: returns_def throws_def)

lemma returns_outcome: "returns f \<Longrightarrow> \<exists>r w'. f w = (Inr r, w')"
  by (cases "f w"; cases "fst (f w)") (auto simp: returns_def dest: spec [where x = w])

lemma map_opt_throws:
  assumes "\<forall>v. returns (mapper v)"
  shows "\<not> throws (map_opt opt mapper w)"
proof (cases "value_of opt")
  case (Val v)
  from assms have "returns (mapper v)" by simp
  from returns_outcome [OF this, of w] obtain r w' where "mapper v w = (Inr r, w')"
    by (elim exE)
  with Val show ?thesis by (simp add: map_opt_def)
qed (simp_all add: map_opt_def)

lemma flatMap_throws:
  assumes "\<forall>v. returns (mapper v)"
  shows "\<not> throws (flatMap opt mapper w)"
proof (cases "value_of opt")
  case (Val v)
  from assms have "returns (mapper v)" by simp
  from returns_outcome [OF this, of w] obtain r w' where "mapper v w = (Inr r, w')"
    by (elim exE)
  with Val show ?thesis by (simp add: flatMap_def)
qed (simp_all add: flatMap_def)

lemma filter_opt_throws:
  assumes "\<forall>v. returns (predicate v)"
  shows "\<not> throws (filter_opt opt predicate w)"
proof (cases "value_of opt")
  case (Val v)
  from assms have "returns (predicate v)" by simp
  from returns_outcome [OF this, of w] obtain keep w' where "predicate v w = (Inr keep, w')"
    by (elim exE)
  with Val show ?thesis by (simp add: filter_opt_def)
qed (simp_all add: filter_opt_def)

lemma or_opt_throws: "returns supplier \<Longrightarrow> \<not> throws (or_opt opt supplier w)"
  by (simp add: or_opt_def returns_not_throws)

lemma orElseGet_throws: "returns supplier \<Longrightarrow> \<not> throws (orElseGet opt supplier w)"
  by (cases "value_of opt") (simp_all add: orElseGet_def returns_not_throws)

lemma ifPresent_throws: "\<forall>v. returns (consumer v) \<Longrightarrow> \<not> throws (ifPresent opt consumer w)"
  by (cases "value_of opt") (simp_all add: ifPresent_def returns_not_throws)

lemma ifPresentOrElse_throws:
  "\<forall>v. returns (action v) \<Longrightarrow> returns emptyAction \<Longrightarrow>
   \<not> throws (ifPresentOrElse opt action emptyAction w)"
  by (cases "value_of opt") (simp_all add: ifPresentOrElse_def returns_not_throws)

lemma get_throws: "isl (get opt) \<longleftrightarrow> isEmpty opt"
  by (cases "value_of opt") (simp_all add: get_def isEmpty_def)

lemma orElseThrow_throws: "throws (orElseThrow opt errorSupplier w) \<longleftrightarrow> isEmpty opt"
  by (cases "value_of opt")
     (auto simp: orElseThrow_def isEmpty_def throws_def split: option.splits prod.splits sum.splits)

text \<open>
  C5, as the code has it. With caller-supplied functions that return, a method call throws
  exactly when it is \<open>get\<close> or \<open>orElseThrow\<close> on an Absent receiver; this covers all
  fourteen methods. \<open>get\<close> and \<open>orElseThrow\<close> throw exactly on an Absent receiver,
  whatever the factory does. Without a factory the error thrown is an \<open>Error\<close> with the
  message \<open>No value present in Optional\<close>; with one, it is what the factory returned.
\<close>

theorem only_get_and_orElseThrow_raise:
  fixes call :: "('v, 'x, 'w) method_call" and factory :: "('x, 'w, 'x thrown) eff"
  assumes "callbacks_return call"
  shows "(throws (invoke strictEq opt call w) \<longleftrightarrow> raising_method call \<and> isEmpty opt)
       \<and> (isl (get opt :: 'x thrown + 'v) \<longleftrightarrow> isEmpty opt)
       \<and> (throws (orElseThrow opt errorSupplier w) \<longleftrightarrow> isEmpty opt)
       \<and> (isEmpty opt \<longrightarrow>
            get opt = (Inl (Error ''No value present in Optional'') :: 'x thrown + 'v)
          \<and> orElseThrow opt None w = (Inl (Error ''No value present in Optional''), w))
       \<and> (isEmpty opt \<and> factory w = (Inr error, w') \<longrightarrow>
            orElseThrow opt (Some factory) w = (Inl error, w'))"
proof (intro conjI impI)
  show "throws (invoke strictEq opt call w) \<longleftrightarrow> raising_method call \<and> isEmpty opt"
  proof (cases call)
    case (CallMap mapper)
    with assms show ?thesis by (simp add: map_opt_throws)
  next
    case (CallFlatMap mapper)
    with assms show ?thesis by (simp add: flatMap_throws)
  next
    case (CallFilter predicate)
    with assms show ?thesis by (simp add: filter_opt_throws)
  next
    case (CallOr supplier)
    with assms show ?thesis by (simp add: or_opt_throws)
  next
    case (CallOrElseGet supplier)
    with assms show ?thesis by (simp add: orElseGet_throws)
  next
    case (CallOrElseThrow errorSupplier)
    then show ?thesis by (simp add: orElseThrow_throws)
  next
    case (CallIfPresent consumer)
    with assms show ?thesis by (simp add: ifPresent_throws)
  next
    case (CallIfPresentOrElse action emptyAction)
    with assms show ?thesis by (simp add: ifPresentOrElse_throws)
  next
    case CallGet
    then show ?thesis by (simp add: get_throws)
  qed simp_all
next
  show "isl (get opt :: 'x thrown + 'v) \<longleftrightarrow> isEmpty opt"
    by (rule get_throws)
next
  show "throws (orElseThrow opt errorSupplier w) \<longleftrightarrow> isEmpty opt"
    by (rule orElseThrow_throws)
next
  assume "isEmpty opt"
  then show "get opt = (Inl (Error ''No value present in Optional'') :: 'x thrown + 'v)"
    by (auto simp: isEmpty_def get_def)
  from \<open>isEmpty opt\<close>
  show "orElseThrow opt None w = (Inl (Error ''No value present in Optional''), w)"
    by (auto simp: isEmpty_def orElseThrow_def)
next
  assume "isEmpty opt \<and> factory w = (Inr error, w')"
  then show "orElseThrow opt (Some factory) w = (Inl error, w')"
    by (auto simp: isEmpty_def orElseThrow_def)
qed

text \<open>
  C5 as stated names the default message \<open>no value present\<close>. The message of the error
  \<open>get()\<close> and \<open>orElseThrow()\<close> throw on \<open>Optional.empty()\<close> is another string.
\<close>

theorem default_message_differs_from_no_value_present:
  "get (Optional_empty :: nat optional) = (Inl (Error ''No value present in Optional'') :: unit thrown + nat)
   \<and> get (Optional_empty :: nat optional) \<noteq> (Inl (Error ''no value present'') :: unit thrown + nat)
   \<and> orElseThrow (Optional_empty :: nat optional) None (0::nat)
        \<noteq> (Inl (Error ''no value present'') :: unit thrown + nat, 0)"
  by (simp add: Optional_empty_def createOptional_def get_def orElseThrow_def)


theorem only_get_and_orElseThrow_raise_witness:
  "throws (invoke (=) (Optional_empty :: nat optional) (CallGet :: (nat, unit, nat) method_call) (0::nat))
   \<and> \<not> throws (invoke (=) (Optional_of (Val (3::nat))) (CallGet :: (nat, unit, nat) method_call) (0::nat))
   \<and> \<not> throws (invoke (=) (Optional_empty :: nat optional)
         (CallMap (\<lambda>v w. (Inr (Val (Suc v)), Suc w)) :: (nat, unit, nat) method_call) (0::nat))
   \<and> \<not> throws (invoke (=) (Optional_empty :: nat optional)
         (CallOrElseGet (\<lambda>w. (Inr 7, Suc w)) :: (nat, unit, nat) method_call) (0::nat))
   \<and> orElseThrow (Optional_empty :: nat optional)
         (Some (\<lambda>w. (Inr (Custom ''wrong type'') :: string thrown + string thrown, Suc w))) (0::nat) =
       (Inl (Custom ''wrong type''), 1)"
  using only_get_and_orElseThrow_raise
          [where call = "CallGet :: (nat, unit, nat) method_call" and strictEq = "(=)"
             and opt = "Optional_empty :: nat optional" and w = "0::nat"]
        only_get_and_orElseThrow_raise
          [where call = "CallGet :: (nat, unit, nat) method_call" and strictEq = "(=)"
             and opt = "Optional_of (Val (3::nat))" and w = "0::nat"]
        only_get_and_orElseThrow_raise
          [where call = "CallMap (\<lambda>v w. (Inr (Val (Suc v)), Suc w)) :: (nat, unit, nat) method_call"
             and strictEq = "(=)" and opt = "Optional_empty :: nat optional" and w = "0::nat"]
        only_get_and_orElseThrow_raise
          [where call = "CallOrElseGet (\<lambda>w. (Inr 7, Suc w)) :: (nat, unit, nat) method_call"
             and strictEq = "(=)" and opt = "Optional_empty :: nat optional" and w = "0::nat"]
        only_get_and_orElseThrow_raise
          [where call = "CallGet :: (nat, string, nat) method_call" and strictEq = "(=)"
             and opt = "Optional_empty :: nat optional" and w = "0::nat"
             and factory = "\<lambda>w. (Inr (Custom ''wrong type'') :: string thrown + string thrown, Suc w)"
             and error = "Custom ''wrong type''" and w' = 1]
  by (simp add: returns_def isEmpty_def Optional_empty_def Optional_of_def createOptional_def
      get_def map_opt_def orElseGet_def orElseThrow_def)

section \<open>Instances are never changed\<close>

lemma kept_refl: "kept s s"
  by (simp add: kept_def)

lemma kept_trans: "kept s s' \<Longrightarrow> kept s' s'' \<Longrightarrow> kept s s''"
  by (auto simp: kept_def)

lemma createOptional_inst_new:
  "fst (createOptional_inst v s) = Inr (created s)"
  "captured (snd (createOptional_inst v s)) (created s) = v"
  "created (snd (createOptional_inst v s)) = Suc (created s)"
  by (simp_all add: createOptional_inst_def)

lemma createOptional_inst_kept: "kept s (snd (createOptional_inst v s))"
  by (simp add: kept_def createOptional_inst_def)

lemma keeps_instancesD: "keeps_instances f \<Longrightarrow> kept s (snd (f s))"
  by (simp add: keeps_instances_def)

lemma after_callback_kept:
  assumes "keeps_instances f" and "f s = (r, s')"
  shows "kept s s'"
  using keeps_instancesD [OF assms(1), of s] assms(2) by simp

lemma map_inst_kept:
  assumes "\<forall>v. keeps_instances (mapper v)"
  shows "kept s (snd (map_inst self mapper s))"
proof (cases "captured s self")
  case (Val v)
  obtain r s' where run: "mapper v s = (r, s')" by (cases "mapper v s")
  with assms have "kept s s'" by (auto intro: after_callback_kept)
  then show ?thesis
    using Val run by (cases r) (auto simp: map_inst_def intro: kept_trans createOptional_inst_kept)
qed (simp_all add: map_inst_def createOptional_inst_kept)

lemma flatMap_inst_is_map_inst: "flatMap_inst self mapper s = map_inst self mapper s"
  by (simp add: flatMap_inst_def map_inst_def)

lemma filter_inst_kept:
  assumes "\<forall>v. keeps_instances (predicate v)"
  shows "kept s (snd (filter_inst self predicate s))"
proof (cases "captured s self")
  case (Val v)
  obtain r s' where run: "predicate v s = (r, s')" by (cases "predicate v s")
  with assms have "kept s s'" by (auto intro: after_callback_kept)
  then show ?thesis
    using Val run by (cases r) (auto simp: filter_inst_def intro: kept_trans createOptional_inst_kept)
qed (simp_all add: filter_inst_def createOptional_inst_kept)

lemma or_inst_kept:
  assumes "keeps_instances supplier"
  shows "kept s (snd (or_inst self supplier s))"
  using assms by (simp add: or_inst_def createOptional_inst_kept keeps_instancesD)

lemma step_kept: "well_behaved m \<Longrightarrow> kept s (snd (step m self s))"
  by (cases m)
     (simp_all add: map_inst_kept flatMap_inst_is_map_inst filter_inst_kept or_inst_kept)

lemma chain_kept:
  "\<forall>m\<in>set ms. well_behaved m \<Longrightarrow> kept s (snd (chain ms self s))"
proof (induction ms arbitrary: self s)
  case Nil
  then show ?case by (simp add: kept_refl)
next
  case (Cons m ms)
  obtain r s' where first: "step m self s = (r, s')" by (cases "step m self s")
  from Cons.prems have "kept s (snd (step m self s))" by (simp add: step_kept)
  with first have here: "kept s s'" by simp
  show ?case
  proof (cases r)
    case (Inl e)
    with first here show ?thesis by simp
  next
    case (Inr b)
    from Cons.IH Cons.prems have "kept s' (snd (chain ms b s'))" by simp
    with here first Inr show ?thesis by (auto intro: kept_trans)
  qed
qed

lemma chain_snoc:
  "chain (ms @ [m]) self s =
     (case chain ms self s of (Inl e, s') \<Rightarrow> (Inl e, s') | (Inr b, s') \<Rightarrow> step m b s')"
  by (induction ms arbitrary: self s) (auto split: prod.splits sum.splits)

lemma map_inst_fresh:
  assumes "\<forall>v. keeps_instances (mapper v)" and "map_inst self mapper s = (Inr b, s')"
  shows "created s \<le> b"
proof (cases "captured s self")
  case (Val v)
  obtain r s1 where run: "mapper v s = (r, s1)" by (cases "mapper v s")
  with assms(1) have "kept s s1" by (auto intro: after_callback_kept)
  then have "created s \<le> created s1" by (simp add: kept_def)
  with assms(2) Val run show ?thesis
    by (cases r) (auto simp: map_inst_def createOptional_inst_def)
qed (use assms(2) in \<open>auto simp: map_inst_def createOptional_inst_def\<close>)

lemma filter_inst_fresh:
  assumes "\<forall>v. keeps_instances (predicate v)" and "filter_inst self predicate s = (Inr b, s')"
  shows "created s \<le> b"
proof (cases "captured s self")
  case (Val v)
  obtain r s1 where run: "predicate v s = (r, s1)" by (cases "predicate v s")
  with assms(1) have "kept s s1" by (auto intro: after_callback_kept)
  then have "created s \<le> created s1" by (simp add: kept_def)
  with assms(2) Val run show ?thesis
    by (cases r) (auto simp: filter_inst_def createOptional_inst_def split: if_splits)
qed (use assms(2) in \<open>auto simp: filter_inst_def createOptional_inst_def\<close>)

lemma step_fresh:
  assumes "well_behaved m" and "\<not> passes_on m" and "step m self s = (Inr b, s')"
  shows "created s \<le> b"
  using assms
  by (cases m) (auto simp: flatMap_inst_is_map_inst dest: map_inst_fresh filter_inst_fresh)

lemma chain_last_fresh:
  assumes "\<forall>m\<in>set ms. well_behaved m" and "ms \<noteq> []" and "\<not> passes_on (last ms)"
    and "chain ms self s = (Inr b, s')"
  shows "created s \<le> b"
proof -
  from assms(2) obtain front m where ms: "ms = front @ [m]"
    by (metis append_butlast_last_id)
  with assms(1,3) have m: "well_behaved m" "\<not> passes_on m" and front: "\<forall>m\<in>set front. well_behaved m"
    by simp_all
  obtain r s1 where before: "chain front self s = (r, s1)" by (cases "chain front self s")
  from chain_kept [OF front, of s self] before have "created s \<le> created s1"
    by (simp add: kept_def)
  moreover from assms(4) ms before obtain a where "r = Inr a" and "step m a s1 = (Inr b, s')"
    by (cases r) (auto simp: chain_snoc)
  then have "created s1 \<le> b" using m by (auto dest: step_fresh)
  ultimately show ?thesis by simp
qed

text \<open>
  The instance layer stores what the value layer computes: \<open>map\<close> on an instance creates an
  instance holding the value of the Optional that \<open>map_opt\<close> returns for the captured value.
\<close>

lemma map_inst_stores_map_opt:
  "map_inst self mapper s =
     (case map_opt (createOptional (captured s self)) mapper s of
        (Inl e, s') \<Rightarrow> (Inl e, s')
      | (Inr r, s') \<Rightarrow> createOptional_inst (value_of r) s')"
  by (cases "captured s self")
     (auto simp: map_inst_def map_opt_def createOptional_def split: prod.splits sum.splits)

lemma filter_inst_stores_filter_opt:
  assumes "\<forall>v. keeps_instances (predicate v)" and "self < created s"
  shows "filter_inst self predicate s =
     (case filter_opt (createOptional (captured s self)) predicate s of
        (Inl e, s') \<Rightarrow> (Inl e, s')
      | (Inr r, s') \<Rightarrow> createOptional_inst (value_of r) s')"
proof (cases "captured s self")
  case (Val v)
  obtain r s' where run: "predicate v s = (r, s')" by (cases "predicate v s")
  with assms(1) have "kept s s'" by (auto intro: after_callback_kept)
  with assms(2) have "captured s' self = captured s self" by (simp add: kept_def)
  with Val run show ?thesis
    by (cases r) (auto simp: filter_inst_def filter_opt_def createOptional_def)
qed (simp_all add: filter_inst_def filter_opt_def createOptional_def)

text \<open>
  C9, as the code has it. Take any chain of \<open>map\<close>, \<open>flatMap\<close>, \<open>filter\<close> and \<open>or\<close> calls
  that starts at an existing instance, with caller-supplied functions that only do what
  the language lets them. Whether the chain returns or throws, the receiver still unwraps
  to the value it captured and is Present or Absent as before, and so is every instance
  that existed. When the last call is \<open>map\<close>, \<open>flatMap\<close> or \<open>filter\<close>, the instance
  returned is one that did not exist before the chain; \<open>or\<close> on a Present receiver
  returns a new instance too. (\<open>or\<close> on an Absent receiver returns the supplier's
  instance, whichever that is.)
\<close>

theorem chained_operations_leave_receiver_unchanged:
  fixes ms :: "('v, 'x, 'w) chained list" and supplier :: "('x, ('v, 'w) instances, nat) eff"
  assumes "self < created s" and "\<forall>m\<in>set ms. well_behaved m"
    and "chain ms self s = (outcome, s')"
  shows "unwrap_inst s' self = unwrap_inst s self
       \<and> isPresent_inst s' self = isPresent_inst s self
       \<and> (\<forall>i<created s. captured s' i = captured s i)
       \<and> (ms \<noteq> [] \<and> \<not> passes_on (last ms) \<longrightarrow>
            (\<forall>b. outcome = Inr b \<longrightarrow> created s \<le> b \<and> b \<noteq> self))
       \<and> (isPresent_inst s self \<longrightarrow>
            fst (or_inst self supplier s) = Inr (created s) \<and> created s \<noteq> self)"
proof -
  from chain_kept [OF assms(2), of s self] assms(3) have kept: "kept s s'" by simp
  then have all: "\<forall>i<created s. captured s' i = captured s i" by (simp add: kept_def)
  with assms(1) have same: "captured s' self = captured s self" by simp
  have fresh: "created s \<le> b \<and> b \<noteq> self"
    if "ms \<noteq> []" "\<not> passes_on (last ms)" "outcome = Inr b" for b
  proof -
    from that assms(3) have "chain ms self s = (Inr b, s')" by simp
    from chain_last_fresh [OF assms(2) that(1,2) this] assms(1) show ?thesis by simp
  qed
  have "fst (or_inst self supplier s) = Inr (created s) \<and> created s \<noteq> self"
    if "isPresent_inst s self"
    using that assms(1) by (simp add: or_inst_def createOptional_inst_def)
  with same all fresh show ?thesis
    by (simp add: unwrap_inst_def isPresent_inst_def)
qed

theorem chained_operations_leave_receiver_unchanged_witness:
  "(let s = snd (createOptional_inst (Val (5::nat))
                  (\<lparr>captured = (\<lambda>_. Undefined), created = 0, outside = (0::nat)\<rparr>)
                :: (unit thrown + nat) \<times> (nat, nat) instances);
        after = chain [ThenMap (\<lambda>v s. (Inr (Val (Suc v)), s\<lparr>outside := Suc (outside s)\<rparr>)),
                       ThenFilter (\<lambda>v s. (Inr (v < 3), s))] 0 s
                :: (unit thrown + nat) \<times> (nat, nat) instances
    in unwrap_inst s 0 = Val 5
     \<and> fst after = Inr 2
     \<and> unwrap_inst (snd after) 0 = Val 5
     \<and> isPresent_inst (snd after) 0
     \<and> unwrap_inst (snd after) 1 = Val 6
     \<and> unwrap_inst (snd after) 2 = Undefined)"
  using chained_operations_leave_receiver_unchanged
          [where self = 0
             and s = "snd (createOptional_inst (Val (5::nat))
                  (\<lparr>captured = (\<lambda>_. Undefined), created = 0, outside = (0::nat)\<rparr>)
                :: (unit thrown + nat) \<times> (nat, nat) instances)"
             and ms = "[ThenMap (\<lambda>v s. (Inr (Val (Suc v)), s\<lparr>outside := Suc (outside s)\<rparr>)),
                       ThenFilter (\<lambda>v s. (Inr (v < 3), s))] :: (nat, unit, nat) chained list"
             and outcome = "Inr 2"]
  by (simp add: Let_def createOptional_inst_def map_inst_def filter_inst_def unwrap_inst_def
      isPresent_inst_def keeps_instances_def kept_def)

text \<open>
  C9 as stated has every operation return a new instance. \<^verbatim>\<open>e.or(() => e)\<close> on the empty
  Optional \<open>e\<close>, instance 0, returns instance 0: the receiver itself, and no instance is
  created.
\<close>

theorem or_on_absent_returns_the_suppliers_instance:
  "createOptional_inst Undefined \<lparr>captured = (\<lambda>_. Undefined), created = 0, outside = ()\<rparr> =
     (Inr 0 :: unit thrown + nat,
      \<lparr>captured = (\<lambda>_. Undefined :: nat nullable), created = 1, outside = ()\<rparr>)
   \<and> or_inst 0 (\<lambda>s. (Inr 0, s)) \<lparr>captured = (\<lambda>_. Undefined), created = 1, outside = ()\<rparr> =
     (Inr 0 :: unit thrown + nat,
      \<lparr>captured = (\<lambda>_. Undefined :: nat nullable), created = 1, outside = ()\<rparr>)
   \<and> keeps_instances (\<lambda>s :: (nat, unit) instances. (Inr 0 :: unit thrown + nat, s))"
  by (simp add: createOptional_inst_def or_inst_def isPresent_inst_def keeps_instances_def kept_def
      fun_upd_idem_iff)

end
